theory Spec2Isabelle
  imports Main
begin

section \<open>The secret resolver of app/app.py\<close>

text \<open>
  The program is one Flask module, \<^verbatim>\<open>app/app.py\<close>, with a resolver \<^verbatim>\<open>ssm_secret\<close> and
  one route handler \<^verbatim>\<open>hello\<close>. Both read the process environment \<^verbatim>\<open>os.environ\<close>;
  the resolver may call \<^verbatim>\<open>get_parameter\<close> on an SSM client.

  The embedding makes these effects explicit.
  \<^item> \<^verbatim>\<open>os.environ\<close> is a map from variable names to values; reading an absent
    name raises \<^verbatim>\<open>KeyError\<close>, which is a value of the error type here.
  \<^item> The SSM client is a parameter of the model: a function from the request
    (\<^verbatim>\<open>Name\<close>, \<^verbatim>\<open>WithDecryption\<close>) to either the error the call raises or the string found
    at \<^verbatim>\<open>result['Parameter']['Value']\<close> of its response. It stands for the state of the
    remote store. Building the client (\<^verbatim>\<open>boto3.client('ssm')\<close>) is taken to succeed.
  \<^item> Every function passes a \<open>world\<close> along: the environment and the log of the
    requests sent to the parameter store so far, oldest first. A function that returns
    the world it was given has sent nothing and written nothing.
  \<^item> A Python \<^verbatim>\<open>str\<close> is a list of characters; \<^verbatim>\<open>len\<close> is \<open>length\<close>, the slices
    \<^verbatim>\<open>s[0:n]\<close> and \<^verbatim>\<open>s[n:]\<close> (for \<^verbatim>\<open>n >= 0\<close>) are \<open>take n s\<close> and \<open>drop n s\<close>, which like
    the slices clamp at the end of the string instead of failing, and \<^verbatim>\<open>+\<close> is \<open>@\<close>.
\<close>

subsection \<open>Data\<close>

datatype client_error = ParameterNotFound | AccessDenied | TransportError

datatype error = KeyError string | LookupFailure client_error

datatype request = GetParameter (Name: string) (WithDecryption: bool)

type_synonym ssm_client = "string \<Rightarrow> bool \<Rightarrow> client_error + string"

record world =
  environ :: "string \<rightharpoonup> string"
  requests :: "request list"

subsection \<open>The two effects\<close>

text \<open>\<^verbatim>\<open>os.environ[k]\<close>: the value, or \<^verbatim>\<open>KeyError\<close> when the variable is absent.\<close>

definition os_environ :: "world \<Rightarrow> string \<Rightarrow> error + string" where
  "os_environ w k = (case environ w k of None \<Rightarrow> Inl (KeyError k) | Some v \<Rightarrow> Inr v)"

text \<open>
  \<^verbatim>\<open>client.get_parameter(Name=name, WithDecryption=dec)\<close> followed by
  \<^verbatim>\<open>result['Parameter']['Value']\<close>: the request is sent (and logged) whether or not the
  store answers with an error.
\<close>

definition get_parameter :: "ssm_client \<Rightarrow> string \<Rightarrow> bool \<Rightarrow> world \<Rightarrow> (error + string) \<times> world" where
  "get_parameter client name dec w =
     (case client name dec of
        Inl e \<Rightarrow> Inl (LookupFailure e)
      | Inr v \<Rightarrow> Inr v,
      w\<lparr>requests := requests w @ [GetParameter name dec]\<rparr>)"

subsection \<open>The resolver\<close>

text \<open>
  \<^verbatim>\<open>
  def ssm_secret(path, prefix = "ssm_sdk://"):
      client = boto3.client('ssm') # uses the container role
      prefix_len = len(prefix)
      if os.environ['SECRET_SDK'][0:prefix_len] == prefix:
          result = client.get_parameter(
              Name=os.environ['SECRET_SDK'][prefix_len:],
              WithDecryption=True
          )
          secret = result['Parameter']['Value']
      else:
          secret = os.environ['SECRET_SDK']
      return secret
  \<close>
  The environment is read once for the test and once more in the branch taken, as in
  the source. The argument \<open>path\<close> is kept although the body never mentions it.
\<close>

definition ssm_secret :: "ssm_client \<Rightarrow> string \<Rightarrow> string \<Rightarrow> world \<Rightarrow> (error + string) \<times> world" where
  "ssm_secret client path prefix w =
     (let prefix_len = length prefix in
      case os_environ w ''SECRET_SDK'' of
        Inl e \<Rightarrow> (Inl e, w)
      | Inr tested \<Rightarrow>
          if take prefix_len tested = prefix then
            (case os_environ w ''SECRET_SDK'' of
               Inl e \<Rightarrow> (Inl e, w)
             | Inr v \<Rightarrow> get_parameter client (drop prefix_len v) True w)
          else
            (case os_environ w ''SECRET_SDK'' of
               Inl e \<Rightarrow> (Inl e, w)
             | Inr secret \<Rightarrow> (Inr secret, w)))"

text \<open>The default of the second parameter.\<close>

definition default_prefix :: string where
  "default_prefix = ''ssm_sdk://''"

definition ssm_secret_default :: "ssm_client \<Rightarrow> string \<Rightarrow> world \<Rightarrow> (error + string) \<times> world" where
  "ssm_secret_default client path w = ssm_secret client path default_prefix w"

subsection \<open>The route handler\<close>

text \<open>
  \<^verbatim>\<open>
  @app.route("/")
  def hello():
      secret = ssm_secret(
          os.environ['SECRET_SDK'],
          os.environ['SECRET_SDK_PREFIX']
      )
      section1 = "SDK decrypted: " + secret
      section2 = "Ssn-env decrypted: " + os.environ['SECRET']
      return section1 + section2
  \<close>
  Python evaluates the two arguments left to right, then the call, and reads
  \<^verbatim>\<open>SECRET\<close> only after the resolver has returned. An \<open>Inl\<close> result is the exception
  that leaves the handler, to which Flask answers with a server error.
\<close>

definition hello :: "ssm_client \<Rightarrow> world \<Rightarrow> (error + string) \<times> world" where
  "hello client w =
     (case os_environ w ''SECRET_SDK'' of
        Inl e \<Rightarrow> (Inl e, w)
      | Inr path \<Rightarrow>
     (case os_environ w ''SECRET_SDK_PREFIX'' of
        Inl e \<Rightarrow> (Inl e, w)
      | Inr prefix \<Rightarrow>
     (case ssm_secret client path prefix w of
        (Inl e, w') \<Rightarrow> (Inl e, w')
      | (Inr secret, w') \<Rightarrow>
          let section1 = ''SDK decrypted: '' @ secret in
          (case os_environ w' ''SECRET'' of
             Inl e \<Rightarrow> (Inl e, w')
           | Inr s \<Rightarrow>
               let section2 = ''Ssn-env decrypted: '' @ s in
               (Inr (section1 @ section2), w')))))"

subsection \<open>Vocabulary of the specification\<close>

text \<open>
  The specification speaks of a value that "starts with" the prefix (an exact,
  case-sensitive match of the leading characters). This predicate follows those
  words, not the slice comparison of the source; \<open>take_eq_starts_with\<close> relates the two.
\<close>

fun starts_with :: "string \<Rightarrow> string \<Rightarrow> bool" where
  "starts_with v [] = True"
| "starts_with [] (c # p) = False"
| "starts_with (x # v) (c # p) = (x = c \<and> starts_with v p)"

text \<open>
  Calling the resolver \<open>n\<close> times in a row with the same arguments, each call starting
  in the world the previous one left; the results are collected in call order.
\<close>

fun resolve_repeatedly :: "nat \<Rightarrow> ssm_client \<Rightarrow> string \<Rightarrow> string \<Rightarrow> world \<Rightarrow> (error + string) list \<times> world" where
  "resolve_repeatedly 0 client path prefix w = ([], w)"
| "resolve_repeatedly (Suc n) client path prefix w =
     (case ssm_secret client path prefix w of
        (r, w') \<Rightarrow>
          (case resolve_repeatedly n client path prefix w' of
             (rs, w'') \<Rightarrow> (r # rs, w'')))"

subsection \<open>Example inputs\<close>

text \<open>
  A store holding the single parameter \<^verbatim>\<open>db/password\<close>, readable only with decryption,
  and a store that holds nothing.
\<close>

definition example_store :: ssm_client where
  "example_store name dec =
     (if name = ''db/password'' \<and> dec then Inr ''s3cr3t'' else Inl ParameterNotFound)"

definition empty_store :: ssm_client where
  "empty_store name dec = Inl ParameterNotFound"

text \<open>Environments: a reference, a literal, and the reference without \<^verbatim>\<open>SECRET\<close>.\<close>

definition reference_world :: world where
  "reference_world =
     \<lparr>environ = [''SECRET_SDK'' \<mapsto> ''ssm_sdk://db/password'',
                 ''SECRET_SDK_PREFIX'' \<mapsto> ''ssm_sdk://'',
                 ''SECRET'' \<mapsto> ''hunter2''],
      requests = []\<rparr>"

definition literal_world :: world where
  "literal_world =
     \<lparr>environ = [''SECRET_SDK'' \<mapsto> ''plain-secret'',
                 ''SECRET_SDK_PREFIX'' \<mapsto> ''ssm_sdk://'',
                 ''SECRET'' \<mapsto> ''hunter2''],
      requests = []\<rparr>"

definition no_secret_world :: world where
  "no_secret_world =
     \<lparr>environ = [''SECRET_SDK'' \<mapsto> ''ssm_sdk://db/password'',
                 ''SECRET_SDK_PREFIX'' \<mapsto> ''ssm_sdk://''],
      requests = []\<rparr>"

definition no_prefix_world :: world where
  "no_prefix_world =
     \<lparr>environ = [''SECRET_SDK'' \<mapsto> ''ssm_sdk://db/password'',
                 ''SECRET'' \<mapsto> ''hunter2''],
      requests = []\<rparr>"

definition empty_world :: world where
  "empty_world = \<lparr>environ = Map.empty, requests = []\<rparr>"

text \<open>A value shorter than the default prefix.\<close>

definition short_world :: world where
  "short_world = \<lparr>environ = [''SECRET_SDK'' \<mapsto> ''ssm''], requests = []\<rparr>"

section \<open>Properties\<close>

subsection \<open>The prefix test\<close>

lemma starts_with_iff_append: "starts_with v p \<longleftrightarrow> (\<exists>name. v = p @ name)"
  by (induction v p rule: starts_with.induct) auto

lemma take_eq_starts_with: "take (length p) v = p \<longleftrightarrow> starts_with v p"
  by (induction v p rule: starts_with.induct) auto

lemma starts_with_shorter: "length v < length p \<Longrightarrow> \<not> starts_with v p"
  by (auto simp: starts_with_iff_append)

subsection \<open>What the resolver computes\<close>

text \<open>
  The three outcomes of the resolver, by the state of \<^verbatim>\<open>SECRET_SDK\<close> in the
  environment. The argument \<open>path\<close> is arbitrary in each.
\<close>

lemma ssm_secret_absent:
  "environ w ''SECRET_SDK'' = None \<Longrightarrow>
   ssm_secret client path prefix w = (Inl (KeyError ''SECRET_SDK''), w)"
  by (simp add: ssm_secret_def os_environ_def)

lemma ssm_secret_literal:
  "environ w ''SECRET_SDK'' = Some v \<Longrightarrow> \<not> starts_with v prefix \<Longrightarrow>
   ssm_secret client path prefix w = (Inr v, w)"
  by (simp add: ssm_secret_def os_environ_def take_eq_starts_with)

lemma ssm_secret_reference:
  "environ w ''SECRET_SDK'' = Some v \<Longrightarrow> starts_with v prefix \<Longrightarrow>
   ssm_secret client path prefix w = get_parameter client (drop (length prefix) v) True w"
  by (simp add: ssm_secret_def os_environ_def take_eq_starts_with)

lemma ssm_secret_cases:
  "ssm_secret client path prefix w =
     (case environ w ''SECRET_SDK'' of
        None \<Rightarrow> (Inl (KeyError ''SECRET_SDK''), w)
      | Some v \<Rightarrow>
          if starts_with v prefix
          then get_parameter client (drop (length prefix) v) True w
          else (Inr v, w))"
  by (simp add: ssm_secret_absent ssm_secret_literal ssm_secret_reference split: option.split)

lemma environ_get_parameter [simp]:
  "environ (snd (get_parameter client name dec w)) = environ w"
  by (simp add: get_parameter_def)

lemma environ_ssm_secret [simp]:
  "environ (snd (ssm_secret client path prefix w)) = environ w"
  by (simp add: ssm_secret_cases split: option.split)

lemma ssm_secret_result_cong:
  "environ w1 ''SECRET_SDK'' = environ w2 ''SECRET_SDK'' \<Longrightarrow>
   fst (ssm_secret client p1 prefix w1) = fst (ssm_secret client p2 prefix w2)"
  by (simp add: ssm_secret_cases get_parameter_def split: option.split)

lemma requests_ssm_secret:
  "requests (snd (ssm_secret client path prefix w)) =
     requests w @
     (case environ w ''SECRET_SDK'' of
        None \<Rightarrow> []
      | Some v \<Rightarrow> if starts_with v prefix then [GetParameter (drop (length prefix) v) True] else [])"
  by (simp add: ssm_secret_cases get_parameter_def split: option.split)

subsection \<open>What the handler computes when \<^verbatim>\<open>SECRET\<close> is absent\<close>

lemma hello_secret_absent:
  "environ w ''SECRET_SDK'' = Some v \<Longrightarrow> environ w ''SECRET_SDK_PREFIX'' = Some p \<Longrightarrow>
   environ w ''SECRET'' = None \<Longrightarrow>
   hello client w =
     (case ssm_secret client v p w of
        (Inl e, w') \<Rightarrow> (Inl e, w')
      | (Inr secret, w') \<Rightarrow> (Inl (KeyError ''SECRET''), w'))"
proof -
  assume v: "environ w ''SECRET_SDK'' = Some v" and p: "environ w ''SECRET_SDK_PREFIX'' = Some p"
    and s: "environ w ''SECRET'' = None"
  obtain r w1 where r: "ssm_secret client v p w = (r, w1)"
    by (cases "ssm_secret client v p w")
  have "environ w1 = environ w"
    using environ_ssm_secret [of client v p w] r by simp
  with v p s r show ?thesis
    by (cases r) (simp_all add: hello_def os_environ_def)
qed

section \<open>The claims\<close>

subsection \<open>C1: a value without the prefix\<close>

text \<open>
  C1 says that for every string \<open>v\<close> that does not start with the prefix, the call
  \<^verbatim>\<open>ssm_secret(v, prefix)\<close> returns \<open>v\<close> unchanged and sends no request to the parameter
  store. The body of \<^verbatim>\<open>ssm_secret\<close> never reads its first parameter; it tests and returns
  \<^verbatim>\<open>os.environ['SECRET_SDK']\<close>. Here the argument is the literal \<^verbatim>\<open>plain-secret\<close> while the
  environment holds the reference \<^verbatim>\<open>ssm_sdk://db/password\<close>: the call sends one request and
  returns the stored parameter, not its argument. (C1 does hold of the value found in
  the environment: \<open>ssm_secret_literal\<close>.)
\<close>

theorem ssm_secret_literal_argument_ignored:
  "\<not> starts_with ''plain-secret'' ''ssm_sdk://'' \<and>
   ssm_secret example_store ''plain-secret'' ''ssm_sdk://'' reference_world =
     (Inr ''s3cr3t'', reference_world\<lparr>requests := [GetParameter ''db/password'' True]\<rparr>)"
  by (simp add: ssm_secret_def os_environ_def get_parameter_def example_store_def reference_world_def)

subsection \<open>C2: a value with the prefix\<close>

text \<open>
  C2 says that for every string \<open>v = prefix + name\<close> the call \<^verbatim>\<open>ssm_secret(v, prefix)\<close>
  returns the decrypted value the store holds for \<open>name\<close>, and that the store is asked
  for exactly \<open>name\<close> with decryption. Here the argument is the reference
  \<^verbatim>\<open>ssm_sdk://db/password\<close>, the store holds \<^verbatim>\<open>db/password\<close>, and the environment holds the
  literal \<^verbatim>\<open>plain-secret\<close>: the call sends no request and returns the literal of the
  environment. (C2 does hold of the value found in the environment:
  \<open>ssm_secret_reference\<close>.)
\<close>

theorem ssm_secret_reference_argument_ignored:
  "ssm_secret example_store (''ssm_sdk://'' @ ''db/password'') ''ssm_sdk://'' literal_world =
     (Inr ''plain-secret'', literal_world) \<and>
   example_store ''db/password'' True = Inr ''s3cr3t''"
  by (simp add: ssm_secret_def os_environ_def get_parameter_def example_store_def literal_world_def)

subsection \<open>C3: the response body\<close>

text \<open>
  C3: the body that \<^verbatim>\<open>GET /\<close> answers with is the concatenation of
  \<^verbatim>\<open>"SDK decrypted: "\<close>, the resolver's result for the value of \<^verbatim>\<open>SECRET_SDK\<close> (resolved with
  the prefix in \<^verbatim>\<open>SECRET_SDK_PREFIX\<close>), \<^verbatim>\<open>"Ssn-env decrypted: "\<close> and the value of \<^verbatim>\<open>SECRET\<close>,
  in that order. The handler returns a body exactly when the three variables are set
  and the resolver returns a secret, and the body is then that concatenation; the world
  the handler leaves is the one the resolver left.
\<close>

theorem hello_body:
  "hello client w = (Inr body, w') \<longleftrightarrow>
   (\<exists>v p s secret.
      environ w ''SECRET_SDK'' = Some v \<and>
      environ w ''SECRET_SDK_PREFIX'' = Some p \<and>
      environ w ''SECRET'' = Some s \<and>
      ssm_secret client v p w = (Inr secret, w') \<and>
      body = ''SDK decrypted: '' @ secret @ ''Ssn-env decrypted: '' @ s)"
proof
  assume h: "hello client w = (Inr body, w')"
  from h obtain v where v: "environ w ''SECRET_SDK'' = Some v"
    by (cases "environ w ''SECRET_SDK''") (auto simp: hello_def os_environ_def)
  from h v obtain p where p: "environ w ''SECRET_SDK_PREFIX'' = Some p"
    by (cases "environ w ''SECRET_SDK_PREFIX''") (auto simp: hello_def os_environ_def)
  obtain r w1 where r: "ssm_secret client v p w = (r, w1)"
    by (cases "ssm_secret client v p w")
  from h v p r obtain secret where secret: "r = Inr secret"
    by (cases r) (auto simp: hello_def os_environ_def)
  have env1: "environ w1 = environ w"
    using environ_ssm_secret [of client v p w] r by simp
  from h v p r secret env1 obtain s where s: "environ w ''SECRET'' = Some s"
    by (cases "environ w ''SECRET''") (auto simp: hello_def os_environ_def)
  from h v p r secret env1 s
  have "w' = w1" and "body = ''SDK decrypted: '' @ secret @ ''Ssn-env decrypted: '' @ s"
    by (auto simp: hello_def os_environ_def)
  with v p s r secret show "\<exists>v p s secret.
      environ w ''SECRET_SDK'' = Some v \<and>
      environ w ''SECRET_SDK_PREFIX'' = Some p \<and>
      environ w ''SECRET'' = Some s \<and>
      ssm_secret client v p w = (Inr secret, w') \<and>
      body = ''SDK decrypted: '' @ secret @ ''Ssn-env decrypted: '' @ s"
    by blast
next
  assume "\<exists>v p s secret.
      environ w ''SECRET_SDK'' = Some v \<and>
      environ w ''SECRET_SDK_PREFIX'' = Some p \<and>
      environ w ''SECRET'' = Some s \<and>
      ssm_secret client v p w = (Inr secret, w') \<and>
      body = ''SDK decrypted: '' @ secret @ ''Ssn-env decrypted: '' @ s"
  then obtain v p s secret where
    v: "environ w ''SECRET_SDK'' = Some v" and
    p: "environ w ''SECRET_SDK_PREFIX'' = Some p" and
    s: "environ w ''SECRET'' = Some s" and
    r: "ssm_secret client v p w = (Inr secret, w')" and
    b: "body = ''SDK decrypted: '' @ secret @ ''Ssn-env decrypted: '' @ s"
    by blast
  have "environ w' = environ w"
    using environ_ssm_secret [of client v p w] r by simp
  with v p s r b show "hello client w = (Inr body, w')"
    by (simp add: hello_def os_environ_def)
qed

text \<open>C3 at the reference environment and the example store.\<close>

theorem hello_body_witness:
  "hello example_store reference_world =
     (Inr ''SDK decrypted: s3cr3tSsn-env decrypted: hunter2'',
      reference_world\<lparr>requests := [GetParameter ''db/password'' True]\<rparr>)"
proof -
  have "ssm_secret example_store ''ssm_sdk://db/password'' ''ssm_sdk://'' reference_world =
          (Inr ''s3cr3t'', reference_world\<lparr>requests := [GetParameter ''db/password'' True]\<rparr>)"
    by (simp add: ssm_secret_def os_environ_def get_parameter_def example_store_def
        reference_world_def)
  then have "\<exists>v p s secret.
      environ reference_world ''SECRET_SDK'' = Some v \<and>
      environ reference_world ''SECRET_SDK_PREFIX'' = Some p \<and>
      environ reference_world ''SECRET'' = Some s \<and>
      ssm_secret example_store v p reference_world =
        (Inr secret, reference_world\<lparr>requests := [GetParameter ''db/password'' True]\<rparr>) \<and>
      ''SDK decrypted: s3cr3tSsn-env decrypted: hunter2'' =
        ''SDK decrypted: '' @ secret @ ''Ssn-env decrypted: '' @ s"
    by (simp add: reference_world_def)
  then show ?thesis
    by (simp only: hello_body)
qed

subsection \<open>C4: absent configuration\<close>

text \<open>
  C4 says that whenever one of the three environment variables is absent, the request
  fails with the missing-configuration error before any remote call. That fails for
  \<^verbatim>\<open>SECRET\<close>, which the handler reads only after the resolver has returned: with
  \<^verbatim>\<open>SECRET\<close> absent and a reference in \<^verbatim>\<open>SECRET_SDK\<close>, the request to the store is sent
  first, and when the store answers with an error the request fails with that error and
  not with \<^verbatim>\<open>KeyError\<close>.
\<close>

theorem hello_missing_secret_counterexample:
  "environ no_secret_world ''SECRET'' = None \<and>
   requests no_secret_world = [] \<and>
   hello example_store no_secret_world =
     (Inl (KeyError ''SECRET''),
      no_secret_world\<lparr>requests := [GetParameter ''db/password'' True]\<rparr>) \<and>
   hello empty_store no_secret_world =
     (Inl (LookupFailure ParameterNotFound),
      no_secret_world\<lparr>requests := [GetParameter ''db/password'' True]\<rparr>)"
  by (simp add: hello_def ssm_secret_def os_environ_def get_parameter_def example_store_def
      empty_store_def no_secret_world_def)

text \<open>
  C4 as amended: when \<^verbatim>\<open>SECRET_SDK\<close> is absent, or \<^verbatim>\<open>SECRET_SDK\<close> is set and
  \<^verbatim>\<open>SECRET_SDK_PREFIX\<close> is absent, the request fails with \<^verbatim>\<open>KeyError\<close> for that variable
  and nothing has been sent to the store. When only \<^verbatim>\<open>SECRET\<close> is absent, the resolver
  runs first, with whatever request it sends: the request then fails with the resolver's
  own error if it has one, and with \<^verbatim>\<open>KeyError\<close> for \<^verbatim>\<open>SECRET\<close> otherwise.
\<close>

theorem hello_missing_configuration:
  "(environ w ''SECRET_SDK'' = None \<longrightarrow>
      hello client w = (Inl (KeyError ''SECRET_SDK''), w)) \<and>
   (environ w ''SECRET_SDK'' = Some v \<and> environ w ''SECRET_SDK_PREFIX'' = None \<longrightarrow>
      hello client w = (Inl (KeyError ''SECRET_SDK_PREFIX''), w)) \<and>
   (environ w ''SECRET_SDK'' = Some v \<and> environ w ''SECRET_SDK_PREFIX'' = Some p \<and>
    environ w ''SECRET'' = None \<longrightarrow>
      hello client w =
        (case ssm_secret client v p w of
           (Inl e, w') \<Rightarrow> (Inl e, w')
         | (Inr secret, w') \<Rightarrow> (Inl (KeyError ''SECRET''), w')))"
proof (intro conjI impI)
  assume "environ w ''SECRET_SDK'' = None"
  then show "hello client w = (Inl (KeyError ''SECRET_SDK''), w)"
    by (simp add: hello_def os_environ_def)
next
  assume "environ w ''SECRET_SDK'' = Some v \<and> environ w ''SECRET_SDK_PREFIX'' = None"
  then show "hello client w = (Inl (KeyError ''SECRET_SDK_PREFIX''), w)"
    by (simp add: hello_def os_environ_def)
next
  assume "environ w ''SECRET_SDK'' = Some v \<and> environ w ''SECRET_SDK_PREFIX'' = Some p \<and>
    environ w ''SECRET'' = None"
  then show "hello client w =
        (case ssm_secret client v p w of
           (Inl e, w') \<Rightarrow> (Inl e, w')
         | (Inr secret, w') \<Rightarrow> (Inl (KeyError ''SECRET''), w'))"
    by (simp add: hello_secret_absent)
qed

text \<open>C4 as amended, at one environment for each of its three cases.\<close>

theorem hello_missing_configuration_witness:
  "environ empty_world ''SECRET_SDK'' = None \<and>
   hello example_store empty_world = (Inl (KeyError ''SECRET_SDK''), empty_world) \<and>
   environ no_prefix_world ''SECRET_SDK'' = Some ''ssm_sdk://db/password'' \<and>
   environ no_prefix_world ''SECRET_SDK_PREFIX'' = None \<and>
   hello example_store no_prefix_world = (Inl (KeyError ''SECRET_SDK_PREFIX''), no_prefix_world) \<and>
   environ no_secret_world ''SECRET_SDK'' = Some ''ssm_sdk://db/password'' \<and>
   environ no_secret_world ''SECRET_SDK_PREFIX'' = Some ''ssm_sdk://'' \<and>
   environ no_secret_world ''SECRET'' = None \<and>
   hello example_store no_secret_world =
     (Inl (KeyError ''SECRET''),
      no_secret_world\<lparr>requests := [GetParameter ''db/password'' True]\<rparr>)"
proof -
  have a: "environ empty_world ''SECRET_SDK'' = None"
    by (simp add: empty_world_def)
  have b: "environ no_prefix_world ''SECRET_SDK'' = Some ''ssm_sdk://db/password'' \<and>
           environ no_prefix_world ''SECRET_SDK_PREFIX'' = None"
    by (simp add: no_prefix_world_def)
  have c: "environ no_secret_world ''SECRET_SDK'' = Some ''ssm_sdk://db/password'' \<and>
           environ no_secret_world ''SECRET_SDK_PREFIX'' = Some ''ssm_sdk://'' \<and>
           environ no_secret_world ''SECRET'' = None"
    by (simp add: no_secret_world_def)
  have r: "ssm_secret example_store ''ssm_sdk://db/password'' ''ssm_sdk://'' no_secret_world =
             (Inr ''s3cr3t'', no_secret_world\<lparr>requests := [GetParameter ''db/password'' True]\<rparr>)"
    by (simp add: ssm_secret_def os_environ_def get_parameter_def example_store_def
        no_secret_world_def)
  from a have 1: "hello example_store empty_world = (Inl (KeyError ''SECRET_SDK''), empty_world)"
    using hello_missing_configuration [of empty_world example_store] by blast
  from b have 2: "hello example_store no_prefix_world =
      (Inl (KeyError ''SECRET_SDK_PREFIX''), no_prefix_world)"
    using hello_missing_configuration
      [of no_prefix_world example_store "''ssm_sdk://db/password''"] by blast
  from c r have 3: "hello example_store no_secret_world =
     (Inl (KeyError ''SECRET''),
      no_secret_world\<lparr>requests := [GetParameter ''db/password'' True]\<rparr>)"
    using hello_missing_configuration
      [of no_secret_world example_store "''ssm_sdk://db/password''" "''ssm_sdk://''"] by simp
  from a b c 1 2 3 show ?thesis by simp
qed

subsection \<open>C5: a failing lookup\<close>

text \<open>
  C5: when the configured value is a reference \<open>prefix + name\<close> and the lookup of
  \<open>name\<close> fails, for whatever reason \<open>e\<close> the client reports, the resolver fails with
  that lookup failure after the one request, whatever its argument; and the handler,
  configured with the same prefix, fails with the same error: nothing catches it, and
  no value is returned in its place.
\<close>

theorem lookup_failure_propagates:
  "environ w ''SECRET_SDK'' = Some (prefix @ name) \<Longrightarrow> client name True = Inl e \<Longrightarrow>
   ssm_secret client path prefix w =
     (Inl (LookupFailure e), w\<lparr>requests := requests w @ [GetParameter name True]\<rparr>) \<and>
   (environ w ''SECRET_SDK_PREFIX'' = Some prefix \<longrightarrow>
      hello client w =
        (Inl (LookupFailure e), w\<lparr>requests := requests w @ [GetParameter name True]\<rparr>))"
proof -
  assume v: "environ w ''SECRET_SDK'' = Some (prefix @ name)" and e: "client name True = Inl e"
  have sw: "starts_with (prefix @ name) prefix"
    by (auto simp: starts_with_iff_append)
  have r: "ssm_secret client q prefix w =
     (Inl (LookupFailure e), w\<lparr>requests := requests w @ [GetParameter name True]\<rparr>)" for q
    using ssm_secret_reference [OF v sw, of client q] e by (simp add: get_parameter_def)
  have "hello client w =
        (Inl (LookupFailure e), w\<lparr>requests := requests w @ [GetParameter name True]\<rparr>)"
    if "environ w ''SECRET_SDK_PREFIX'' = Some prefix"
    using that v r [of "prefix @ name"] by (simp add: hello_def os_environ_def)
  with r [of path] show ?thesis by blast
qed

text \<open>C5 at the reference environment and a store that holds nothing.\<close>

theorem lookup_failure_propagates_witness:
  "environ reference_world ''SECRET_SDK'' = Some (''ssm_sdk://'' @ ''db/password'') \<and>
   empty_store ''db/password'' True = Inl ParameterNotFound \<and>
   environ reference_world ''SECRET_SDK_PREFIX'' = Some ''ssm_sdk://'' \<and>
   ssm_secret empty_store ''ssm_sdk://db/password'' ''ssm_sdk://'' reference_world =
     (Inl (LookupFailure ParameterNotFound),
      reference_world\<lparr>requests := [GetParameter ''db/password'' True]\<rparr>) \<and>
   hello empty_store reference_world =
     (Inl (LookupFailure ParameterNotFound),
      reference_world\<lparr>requests := [GetParameter ''db/password'' True]\<rparr>)"
proof -
  have a: "environ reference_world ''SECRET_SDK'' = Some (''ssm_sdk://'' @ ''db/password'')"
    by (simp add: reference_world_def)
  have b: "empty_store ''db/password'' True = Inl ParameterNotFound"
    by (simp add: empty_store_def)
  have c: "environ reference_world ''SECRET_SDK_PREFIX'' = Some ''ssm_sdk://''"
    by (simp add: reference_world_def)
  have d: "requests reference_world = []"
    by (simp add: reference_world_def)
  from a b c d show ?thesis
    using lookup_failure_propagates
      [where w = reference_world and prefix = "''ssm_sdk://''" and name = "''db/password''"
         and client = empty_store and e = ParameterNotFound
         and path = "''ssm_sdk://db/password''"]
    by simp
qed

subsection \<open>C6: resolution depends on the configured value, the prefix and the store only\<close>

text \<open>
  C6: the configuration value is the one the process environment holds for
  \<^verbatim>\<open>SECRET_SDK\<close> at the moment of the call. Two calls with the same prefix against the
  same store, in two worlds that agree on that value, return the same result and send
  the same requests, whatever else the environments hold, whatever was sent before and
  whatever is passed as \<open>path\<close>; and each call leaves the environment as it found it.
\<close>

theorem resolution_pure:
  "environ w1 ''SECRET_SDK'' = environ w2 ''SECRET_SDK'' \<Longrightarrow>
   fst (ssm_secret client path1 prefix w1) = fst (ssm_secret client path2 prefix w2) \<and>
   (\<exists>sent. requests (snd (ssm_secret client path1 prefix w1)) = requests w1 @ sent \<and>
           requests (snd (ssm_secret client path2 prefix w2)) = requests w2 @ sent) \<and>
   environ (snd (ssm_secret client path1 prefix w1)) = environ w1 \<and>
   environ (snd (ssm_secret client path2 prefix w2)) = environ w2"
proof -
  assume same: "environ w1 ''SECRET_SDK'' = environ w2 ''SECRET_SDK''"
  have "fst (ssm_secret client path1 prefix w1) = fst (ssm_secret client path2 prefix w2)"
    using same by (rule ssm_secret_result_cong)
  moreover have "\<exists>sent. requests (snd (ssm_secret client path1 prefix w1)) = requests w1 @ sent \<and>
           requests (snd (ssm_secret client path2 prefix w2)) = requests w2 @ sent"
    using same by (simp add: requests_ssm_secret)
  ultimately show ?thesis by simp
qed

text \<open>C6 at two environments that differ in \<^verbatim>\<open>SECRET\<close> only.\<close>

theorem resolution_pure_witness:
  "environ reference_world ''SECRET_SDK'' = environ no_secret_world ''SECRET_SDK'' \<and>
   fst (ssm_secret example_store ''ssm_sdk://db/password'' ''ssm_sdk://'' reference_world) =
     Inr ''s3cr3t'' \<and>
   fst (ssm_secret example_store ''ssm_sdk://db/password'' ''ssm_sdk://'' no_secret_world) =
     Inr ''s3cr3t'' \<and>
   environ (snd (ssm_secret example_store ''ssm_sdk://db/password'' ''ssm_sdk://'' reference_world)) =
     environ reference_world"
proof -
  have same: "environ reference_world ''SECRET_SDK'' = environ no_secret_world ''SECRET_SDK''"
    by (simp add: reference_world_def no_secret_world_def)
  have r: "fst (ssm_secret example_store ''ssm_sdk://db/password'' ''ssm_sdk://'' reference_world) =
     Inr ''s3cr3t''"
    by (simp add: ssm_secret_def os_environ_def get_parameter_def example_store_def
        reference_world_def)
  from same r show ?thesis
    using resolution_pure
      [where ?w1.0 = reference_world and ?w2.0 = no_secret_world and client = example_store
         and prefix = "''ssm_sdk://''" and ?path1.0 = "''ssm_sdk://db/password''"
         and ?path2.0 = "''ssm_sdk://db/password''"]
    by simp
qed

subsection \<open>C7: repeated resolution\<close>

text \<open>
  C7: calling the resolver again and again with the same arguments against the same
  store gives the same output every time: each of \<open>n\<close> successive calls returns what
  the first returns, and in particular a second call returns what the first did.
\<close>

theorem resolution_idempotent:
  "fst (resolve_repeatedly n client path prefix w) =
     replicate n (fst (ssm_secret client path prefix w)) \<and>
   fst (ssm_secret client path prefix (snd (ssm_secret client path prefix w))) =
     fst (ssm_secret client path prefix w)"
proof
  show "fst (ssm_secret client path prefix (snd (ssm_secret client path prefix w))) =
     fst (ssm_secret client path prefix w)"
    by (simp add: ssm_secret_result_cong)
next
  show "fst (resolve_repeatedly n client path prefix w) =
     replicate n (fst (ssm_secret client path prefix w))"
  proof (induction n arbitrary: w)
    case 0
    show ?case by simp
  next
    case (Suc n)
    obtain r w1 where r: "ssm_secret client path prefix w = (r, w1)"
      by (cases "ssm_secret client path prefix w")
    have "environ w1 = environ w"
      using environ_ssm_secret [of client path prefix w] r by simp
    then have "fst (ssm_secret client path prefix w1) = fst (ssm_secret client path prefix w)"
      by (simp add: ssm_secret_result_cong)
    with Suc [of w1] r show ?case
      by (auto split: prod.split)
  qed
qed

subsection \<open>C8: the first parameter is dead\<close>

text \<open>
  C8: for any two values \<open>v1\<close> and \<open>v2\<close> passed as first argument, the resolver returns
  the same result and leaves the same world, because what it tests, slices and returns
  is the value of \<^verbatim>\<open>SECRET_SDK\<close> in the environment.
\<close>

theorem path_parameter_dead:
  "ssm_secret client v1 prefix w = ssm_secret client v2 prefix w \<and>
   ssm_secret client v1 prefix w =
     (case environ w ''SECRET_SDK'' of
        None \<Rightarrow> (Inl (KeyError ''SECRET_SDK''), w)
      | Some s \<Rightarrow>
          if starts_with s prefix
          then get_parameter client (drop (length prefix) s) True w
          else (Inr s, w))"
  by (simp add: ssm_secret_cases)

subsection \<open>C9: the empty prefix\<close>

text \<open>
  C9: with the empty string as prefix the test of the source,
  \<^verbatim>\<open>os.environ['SECRET_SDK'][0:0] == ""\<close>, succeeds for every value, so every configured
  value \<open>v\<close> is looked up in the store under the name \<open>v\<close> itself, with decryption, and the
  resolver returns what the store answers.
\<close>

theorem empty_prefix_always_reference:
  "take (length ([]::string)) v = [] \<and>
   (environ w ''SECRET_SDK'' = Some v \<longrightarrow>
      ssm_secret client path [] w =
        (case client v True of Inl e \<Rightarrow> Inl (LookupFailure e) | Inr s \<Rightarrow> Inr s,
         w\<lparr>requests := requests w @ [GetParameter v True]\<rparr>))"
  by (simp add: ssm_secret_cases get_parameter_def)

text \<open>C9 at the literal environment: the literal itself is sent as a name.\<close>

theorem empty_prefix_always_reference_witness:
  "take (length ([]::string)) ''plain-secret'' = [] \<and>
   environ literal_world ''SECRET_SDK'' = Some ''plain-secret'' \<and>
   ssm_secret example_store ''plain-secret'' [] literal_world =
     (Inl (LookupFailure ParameterNotFound),
      literal_world\<lparr>requests := [GetParameter ''plain-secret'' True]\<rparr>)"
proof -
  have a: "environ literal_world ''SECRET_SDK'' = Some ''plain-secret''"
    by (simp add: literal_world_def)
  have b: "requests literal_world = []"
    by (simp add: literal_world_def)
  have c: "example_store ''plain-secret'' True = Inl ParameterNotFound"
    by (simp add: example_store_def)
  from a b c show ?thesis
    using empty_prefix_always_reference
      [where v = "''plain-secret''" and w = literal_world and client = example_store
         and path = "''plain-secret''"]
    by simp
qed

subsection \<open>C10: a value shorter than the prefix\<close>

text \<open>
  C10: when the configured value \<open>v\<close> is strictly shorter than the prefix, the slice of
  its first \<open>len(prefix)\<close> characters is \<open>v\<close> itself (the slice stops at the end of the
  string and raises nothing), it differs from the prefix, and the resolver returns \<open>v\<close>
  without sending anything.
\<close>

theorem shorter_than_prefix_literal:
  "environ w ''SECRET_SDK'' = Some v \<Longrightarrow> length v < length prefix \<Longrightarrow>
   take (length prefix) v = v \<and> take (length prefix) v \<noteq> prefix \<and>
   ssm_secret client path prefix w = (Inr v, w)"
proof -
  assume v: "environ w ''SECRET_SDK'' = Some v" and short: "length v < length prefix"
  from short have "\<not> starts_with v prefix"
    by (rule starts_with_shorter)
  with v have "ssm_secret client path prefix w = (Inr v, w)"
    by (rule ssm_secret_literal)
  moreover from short have "take (length prefix) v = v" by simp
  moreover from short have "take (length prefix) v \<noteq> prefix" by auto
  ultimately show ?thesis by simp
qed

text \<open>C10 at a three-character value and the default prefix.\<close>

theorem shorter_than_prefix_literal_witness:
  "environ short_world ''SECRET_SDK'' = Some ''ssm'' \<and>
   length ''ssm'' < length ''ssm_sdk://'' \<and>
   ssm_secret example_store ''ssm'' ''ssm_sdk://'' short_world = (Inr ''ssm'', short_world)"
proof -
  have a: "environ short_world ''SECRET_SDK'' = Some ''ssm''"
    by (simp add: short_world_def)
  have b: "length ''ssm'' < length ''ssm_sdk://''"
    by simp
  from a b show ?thesis
    using shorter_than_prefix_literal
      [where w = short_world and v = "''ssm''" and prefix = "''ssm_sdk://''"
         and client = example_store and path = "''ssm''"]
    by simp
qed

end
